theory Spec2Isabelle
  imports Main "HOL-Library.Word"
begin

section \<open>Form scanner of package httphelper (value-from-form.go)\<close>

text \<open>
  A shallow embedding of \<^verbatim>\<open>ScanFormData\<close> and of the \<^verbatim>\<open>ScanError\<close> type with its
  \<^verbatim>\<open>Error\<close> method. Go strings are byte sequences (\<open>string\<close>); the form is the map
  \<^verbatim>\<open>r.Form\<close> from names to value slices; the destinations are typed pointers into
  caller-owned variables, modelled by an explicit store; a nil dereference is the
  outcome \<open>Panic\<close>.
\<close>

subsection \<open>Errors\<close>

text \<open>
  The values of Go's \<^verbatim>\<open>error\<close> interface that occur as a sub-error: the value built
  by \<^verbatim>\<open>errors.New\<close> and the failure reported by the integer parsers. A nil
  \<^verbatim>\<open>error\<close> is \<open>None\<close>.
\<close>

datatype parse_failure = ErrSyntax | ErrRange

datatype go_error = errorString string | ParseFailure parse_failure

definition errors_New :: "string \<Rightarrow> go_error option" where
  "errors_New text = Some (errorString text)"

type_synonym ScanErrorType = "8 word"

definition ScanErrorTypeNoSuchField :: ScanErrorType where
  "ScanErrorTypeNoSuchField = 0"

definition ScanErrorTypeMultipleValues :: ScanErrorType where
  "ScanErrorTypeMultipleValues = 1"

definition ScanErrorTypeIncompatibleValue :: ScanErrorType where
  "ScanErrorTypeIncompatibleValue = 2"

definition ScanErrorTypeIncompatibleType :: ScanErrorType where
  "ScanErrorTypeIncompatibleType = 3"

record ScanError =
  FieldNum :: int
  FieldName :: string
  Type :: ScanErrorType
  SubError :: "go_error option"

definition scanErrorNoSuchField :: "int \<Rightarrow> string \<Rightarrow> ScanError" where
  "scanErrorNoSuchField fieldNum fieldName =
     \<lparr>FieldNum = fieldNum, FieldName = fieldName, Type = ScanErrorTypeNoSuchField,
      SubError = None\<rparr>"

definition scanErrorMultipleValues :: "int \<Rightarrow> string \<Rightarrow> ScanError" where
  "scanErrorMultipleValues fieldNum fieldName =
     \<lparr>FieldNum = fieldNum, FieldName = fieldName, Type = ScanErrorTypeMultipleValues,
      SubError = None\<rparr>"

definition scanErrorIncompatibleValue :: "int \<Rightarrow> string \<Rightarrow> go_error option \<Rightarrow> ScanError" where
  "scanErrorIncompatibleValue fieldNum fieldName subError =
     \<lparr>FieldNum = fieldNum, FieldName = fieldName, Type = ScanErrorTypeIncompatibleValue,
      SubError = subError\<rparr>"

text \<open>As in the source, this constructor stores \<^verbatim>\<open>ScanErrorTypeIncompatibleValue\<close>.\<close>

definition scanErrorIncompatibleType :: "int \<Rightarrow> string \<Rightarrow> ScanError" where
  "scanErrorIncompatibleType fieldNum fieldName =
     \<lparr>FieldNum = fieldNum, FieldName = fieldName, Type = ScanErrorTypeIncompatibleValue,
      SubError = None\<rparr>"

subsection \<open>The message of a scan error\<close>

text \<open>
  Go's conversion \<^verbatim>\<open>string(i)\<close> of an integer: the UTF-8 encoding of the code point
  \<open>i\<close>, and of U+FFFD when \<open>i\<close> is not a valid code point.
\<close>

definition string_of_rune :: "int \<Rightarrow> string" where
  "string_of_rune i =
     (if i < 0 \<or> 0x10FFFF < i \<or> (0xD800 \<le> i \<and> i \<le> 0xDFFF)
        then [char_of (0xEF :: int), char_of (0xBF :: int), char_of (0xBD :: int)]
      else if i < 0x80 then [char_of i]
      else if i < 0x800 then [char_of (0xC0 + i div 64), char_of (0x80 + i mod 64)]
      else if i < 0x10000
        then [char_of (0xE0 + i div 4096), char_of (0x80 + (i div 64) mod 64),
              char_of (0x80 + i mod 64)]
      else [char_of (0xF0 + i div 262144), char_of (0x80 + (i div 4096) mod 64),
            char_of (0x80 + (i div 64) mod 64), char_of (0x80 + i mod 64)])"

definition prefix :: "ScanError \<Rightarrow> string" where
  "prefix e =
     ''Scan error in #'' @ string_of_rune (FieldNum e) @ ''field with name '' @ [CHR 0x27]
       @ FieldName e @ [CHR 0x27] @ '': ''"

text \<open>
  The method \<^verbatim>\<open>Error\<close>. It calls itself in the branch of an incompatible value with a
  sub-error, so it is a partial function: \<open>None\<close> is the call that never returns.
\<close>

partial_function (option) Error :: "ScanError \<Rightarrow> string option" where
  "Error e =
     (if Type e = ScanErrorTypeNoSuchField then Some (prefix e @ ''no field with such name.'')
      else if Type e = ScanErrorTypeMultipleValues
        then Some (prefix e @ ''there is more than 1 field with such name.'')
      else if Type e = ScanErrorTypeIncompatibleValue
        then (if SubError e \<noteq> None
                then Option.bind (Error e) (\<lambda>s. Some (prefix e @ s))
              else Some (prefix e @ ''unable to parse string to required type.''))
      else if Type e = ScanErrorTypeIncompatibleType
        then Some (prefix e @ '' type of this field is imcompatible with this function type.'')
      else Some (prefix e @ ''unknown error''))"

subsection \<open>Destinations and the store\<close>

text \<open>
  The dynamic value of \<^verbatim>\<open>ScanField.Value\<close>: a pointer of one of the twelve types of
  the type switch, nil (\<open>None\<close>) or the address of a variable of that type, or a
  value of any other type. Pointers of different pointee types never alias, so the
  store is indexed by the typed pointer. The machine-width types \<^verbatim>\<open>int\<close> and
  \<^verbatim>\<open>uint\<close> hold words of the length \<open>'w\<close>.
\<close>

datatype dest =
    PInt "nat option" | PInt8 "nat option" | PInt16 "nat option" | PInt32 "nat option"
  | PInt64 "nat option"
  | PUint "nat option" | PUint8 "nat option" | PUint16 "nat option" | PUint32 "nat option"
  | PUint64 "nat option"
  | PBool "nat option" | PString "nat option"
  | Unsupported

datatype 'm val =
    VInt 'm | VInt8 "8 word" | VInt16 "16 word" | VInt32 "32 word" | VInt64 "64 word"
  | VUint 'm | VUint8 "8 word" | VUint16 "16 word" | VUint32 "32 word" | VUint64 "64 word"
  | VBool bool | VString string

type_synonym 'w heap = "dest \<Rightarrow> 'w word val"

fun addr :: "dest \<Rightarrow> nat option" where
  "addr (PInt p) = p"
| "addr (PInt8 p) = p"
| "addr (PInt16 p) = p"
| "addr (PInt32 p) = p"
| "addr (PInt64 p) = p"
| "addr (PUint p) = p"
| "addr (PUint8 p) = p"
| "addr (PUint16 p) = p"
| "addr (PUint32 p) = p"
| "addr (PUint64 p) = p"
| "addr (PBool p) = p"
| "addr (PString p) = p"
| "addr Unsupported = None"

datatype 'a result = Panic | Return 'a

record ScanField =
  Name :: string
  Value :: dest

record Request =
  Form :: "string \<rightharpoonup> string list"

definition scanBoolTrueString :: string where
  "scanBoolTrueString = ''on''"

definition scanBoolFalseString :: string where
  "scanBoolFalseString = ''off''"

subsection \<open>The integer parsers of package strconvhelper\<close>

text \<open>
  Modelled from the spec: the functions \<^verbatim>\<open>strconvhelper.ParseInt\<close>, \<^verbatim>\<open>ParseInt8\<close>, ...,
  \<^verbatim>\<open>ParseUint64\<close> of the package \<^verbatim>\<open>github.com/apaxa-io/strconvhelper\<close>, which is not
  among the sources. The specification: "parse the string as a base-10 integer literal
  with optional leading sign (signed types only), no surrounding whitespace, no grouping
  separators", failing when "parsing fails or the value overflows the destination's bit
  width". A Go function of result type \<^verbatim>\<open>(T, error)\<close> returns a value beside the
  error; the specification does not fix it, and the zero value is taken here. The
  failure is a syntax error or a range error.
\<close>

definition is_digit :: "char \<Rightarrow> bool" where
  "is_digit c = (48 \<le> (of_char c :: nat) \<and> (of_char c :: nat) \<le> 57)"

definition digit_val :: "char \<Rightarrow> nat" where
  "digit_val c = of_char c - 48"

fun parse_digits :: "string \<Rightarrow> nat \<Rightarrow> nat option" where
  "parse_digits [] n = Some n"
| "parse_digits (c # cs) n =
     (if is_digit c then parse_digits cs (10 * n + digit_val c) else None)"

definition parse_nat :: "string \<Rightarrow> nat option" where
  "parse_nat s = (if s = [] then None else parse_digits s 0)"

text \<open>
  Modelled from the spec: the unsigned parsers \<^verbatim>\<open>ParseUint\<close>, ..., \<^verbatim>\<open>ParseUint64\<close> at a
  given bit width: digits only, and a value below \<open>2 ^ bits\<close>.
\<close>

definition parse_unsigned :: "nat \<Rightarrow> string \<Rightarrow> int \<times> go_error option" where
  "parse_unsigned bits s =
     (case parse_nat s of
        None \<Rightarrow> (0, Some (ParseFailure ErrSyntax))
      | Some n \<Rightarrow>
          if int n < 2 ^ bits then (int n, None) else (0, Some (ParseFailure ErrRange)))"

text \<open>
  Modelled from the spec: the signed parsers \<^verbatim>\<open>ParseInt\<close>, ..., \<^verbatim>\<open>ParseInt64\<close> at a given
  bit width: an optional sign, then digits, and a value in the two's complement range.
\<close>

definition parse_signed :: "nat \<Rightarrow> string \<Rightarrow> int \<times> go_error option" where
  "parse_signed bits s =
     (case s of
        [] \<Rightarrow> (0, Some (ParseFailure ErrSyntax))
      | c # cs \<Rightarrow>
          (case parse_nat (if c = CHR ''+'' \<or> c = CHR ''-'' then cs else s) of
             None \<Rightarrow> (0, Some (ParseFailure ErrSyntax))
           | Some n \<Rightarrow>
               let v = (if c = CHR ''-'' then - int n else int n)
               in if - (2 ^ (bits - 1)) \<le> v \<and> v < 2 ^ (bits - 1) then (v, None)
                  else (0, Some (ParseFailure ErrRange))))"

text \<open>
  Modelled from the spec: the ten parsers, each at the width of its result type; the
  machine-width ones at the length of \<open>'w\<close>.
\<close>

definition ParseInt :: "string \<Rightarrow> 'w::len word \<times> go_error option" where
  "ParseInt s = (case parse_signed LENGTH('w) s of (v, err) \<Rightarrow> (word_of_int v, err))"

definition ParseInt8 :: "string \<Rightarrow> 8 word \<times> go_error option" where
  "ParseInt8 s = (case parse_signed 8 s of (v, err) \<Rightarrow> (word_of_int v, err))"

definition ParseInt16 :: "string \<Rightarrow> 16 word \<times> go_error option" where
  "ParseInt16 s = (case parse_signed 16 s of (v, err) \<Rightarrow> (word_of_int v, err))"

definition ParseInt32 :: "string \<Rightarrow> 32 word \<times> go_error option" where
  "ParseInt32 s = (case parse_signed 32 s of (v, err) \<Rightarrow> (word_of_int v, err))"

definition ParseInt64 :: "string \<Rightarrow> 64 word \<times> go_error option" where
  "ParseInt64 s = (case parse_signed 64 s of (v, err) \<Rightarrow> (word_of_int v, err))"

definition ParseUint :: "string \<Rightarrow> 'w::len word \<times> go_error option" where
  "ParseUint s = (case parse_unsigned LENGTH('w) s of (v, err) \<Rightarrow> (word_of_int v, err))"

definition ParseUint8 :: "string \<Rightarrow> 8 word \<times> go_error option" where
  "ParseUint8 s = (case parse_unsigned 8 s of (v, err) \<Rightarrow> (word_of_int v, err))"

definition ParseUint16 :: "string \<Rightarrow> 16 word \<times> go_error option" where
  "ParseUint16 s = (case parse_unsigned 16 s of (v, err) \<Rightarrow> (word_of_int v, err))"

definition ParseUint32 :: "string \<Rightarrow> 32 word \<times> go_error option" where
  "ParseUint32 s = (case parse_unsigned 32 s of (v, err) \<Rightarrow> (word_of_int v, err))"

definition ParseUint64 :: "string \<Rightarrow> 64 word \<times> go_error option" where
  "ParseUint64 s = (case parse_unsigned 64 s of (v, err) \<Rightarrow> (word_of_int v, err))"

subsection \<open>ScanFormData\<close>

text \<open>The assignment \<^verbatim>\<open>*value = v\<close>: \<open>None\<close> when the pointer is nil.\<close>

definition store :: "dest \<Rightarrow> 'w word val \<Rightarrow> 'w heap \<Rightarrow> 'w heap option" where
  "store d v h = (if addr d = None then None else Some (h(d := v)))"

text \<open>
  The statement \<^verbatim>\<open>if *value, err = Parse(s); err != nil { return ... }\<close> after the call
  of the parser: the returned value is assigned first, then the error is tested.
  The result \<open>Return None\<close> of an iteration is the fall through to the next one.
\<close>

definition assignParsed ::
  "nat \<Rightarrow> string \<Rightarrow> dest \<Rightarrow> 'w word val \<Rightarrow> go_error option \<Rightarrow> 'w heap
     \<Rightarrow> 'w heap \<times> ScanError option result" where
  "assignParsed i name d v err h =
     (case store d v h of
        None \<Rightarrow> (h, Panic)
      | Some h' \<Rightarrow>
          if err \<noteq> None then (h', Return (Some (scanErrorIncompatibleValue (int i) name err)))
          else (h', Return None))"

definition assign :: "dest \<Rightarrow> 'w word val \<Rightarrow> 'w heap \<Rightarrow> 'w heap \<times> ScanError option result" where
  "assign d v h = (case store d v h of None \<Rightarrow> (h, Panic) | Some h' \<Rightarrow> (h', Return None))"

fun typeSwitch ::
  "nat \<Rightarrow> string \<Rightarrow> string \<Rightarrow> dest \<Rightarrow> 'w::len heap \<Rightarrow> 'w heap \<times> ScanError option result" where
  "typeSwitch i name stringValue (PInt p) h =
     (case ParseInt stringValue of (v, err) \<Rightarrow> assignParsed i name (PInt p) (VInt v) err h)"
| "typeSwitch i name stringValue (PInt8 p) h =
     (case ParseInt8 stringValue of (v, err) \<Rightarrow> assignParsed i name (PInt8 p) (VInt8 v) err h)"
| "typeSwitch i name stringValue (PInt16 p) h =
     (case ParseInt16 stringValue of (v, err) \<Rightarrow> assignParsed i name (PInt16 p) (VInt16 v) err h)"
| "typeSwitch i name stringValue (PInt32 p) h =
     (case ParseInt32 stringValue of (v, err) \<Rightarrow> assignParsed i name (PInt32 p) (VInt32 v) err h)"
| "typeSwitch i name stringValue (PInt64 p) h =
     (case ParseInt64 stringValue of (v, err) \<Rightarrow> assignParsed i name (PInt64 p) (VInt64 v) err h)"
| "typeSwitch i name stringValue (PUint p) h =
     (case ParseUint stringValue of (v, err) \<Rightarrow> assignParsed i name (PUint p) (VUint v) err h)"
| "typeSwitch i name stringValue (PUint8 p) h =
     (case ParseUint8 stringValue of (v, err) \<Rightarrow> assignParsed i name (PUint8 p) (VUint8 v) err h)"
| "typeSwitch i name stringValue (PUint16 p) h =
     (case ParseUint16 stringValue of (v, err) \<Rightarrow>
        assignParsed i name (PUint16 p) (VUint16 v) err h)"
| "typeSwitch i name stringValue (PUint32 p) h =
     (case ParseUint32 stringValue of (v, err) \<Rightarrow>
        assignParsed i name (PUint32 p) (VUint32 v) err h)"
| "typeSwitch i name stringValue (PUint64 p) h =
     (case ParseUint64 stringValue of (v, err) \<Rightarrow>
        assignParsed i name (PUint64 p) (VUint64 v) err h)"
| "typeSwitch i name stringValue (PBool p) h =
     (if stringValue = scanBoolTrueString then assign (PBool p) (VBool True) h
      else if stringValue = scanBoolFalseString then assign (PBool p) (VBool False) h
      else (h, Return (Some (scanErrorIncompatibleValue (int i) name
              (errors_New ([CHR 0x27] @ stringValue @ [CHR 0x27] @ '' is not a valid bool value.''))))))"
| "typeSwitch i name stringValue (PString p) h = assign (PString p) (VString stringValue) h"
| "typeSwitch i name stringValue Unsupported h =
     (h, Return (Some (scanErrorIncompatibleType (int i) name)))"

text \<open>
  One iteration of the loop over \<^verbatim>\<open>fields\<close>: the lookup in \<^verbatim>\<open>r.Form\<close> (a panic when
  \<^verbatim>\<open>r\<close> is nil), then the type switch.
\<close>

definition scanField ::
  "Request option \<Rightarrow> nat \<Rightarrow> ScanField \<Rightarrow> 'w::len heap \<Rightarrow> 'w heap \<times> ScanError option result" where
  "scanField r i field h =
     (case r of
        None \<Rightarrow> (h, Panic)
      | Some req \<Rightarrow>
          (case (case Form req (Name field) of None \<Rightarrow> ([], False) | Some vs \<Rightarrow> (vs, True)) of
             (stringValues, ok) \<Rightarrow>
               if ok \<and> length stringValues = 1
                 then typeSwitch i (Name field) (stringValues ! 0) (Value field) h
               else if \<not> ok then (h, Return (Some (scanErrorNoSuchField (int i) (Name field))))
               else (h, Return (Some (scanErrorMultipleValues (int i) (Name field))))))"

fun scanLoop ::
  "Request option \<Rightarrow> nat \<Rightarrow> ScanField list \<Rightarrow> 'w::len heap \<Rightarrow> 'w heap \<times> ScanError option result" where
  "scanLoop r i [] h = (h, Return None)"
| "scanLoop r i (field # rest) h =
     (case scanField r i field h of
        (h', Return None) \<Rightarrow> scanLoop r (Suc i) rest h'
      | (h', res) \<Rightarrow> (h', res))"

definition ScanFormData ::
  "Request option \<Rightarrow> ScanField list \<Rightarrow> 'w::len heap \<Rightarrow> 'w heap \<times> ScanError option result" where
  "ScanFormData r fs h = scanLoop r 0 fs h"

subsection \<open>The scan with its inputs in the store\<close>








subsection \<open>Notions used by the claims\<close>

text \<open>
  The representable range of the pointee type of an integer destination, for the machine
  width \<open>w\<close>; the integer that a stored value denotes (\<open>sint\<close> for the signed types,
  \<open>uint\<close> for the unsigned ones); and the value of the destination's type that a Go
  conversion makes of an integer.
\<close>

fun int_range :: "nat \<Rightarrow> dest \<Rightarrow> (int \<times> int) option" where
  "int_range w (PInt p) = Some (- (2 ^ (w - 1)), 2 ^ (w - 1) - 1)"
| "int_range w (PInt8 p) = Some (- 128, 127)"
| "int_range w (PInt16 p) = Some (- 32768, 32767)"
| "int_range w (PInt32 p) = Some (- 2147483648, 2147483647)"
| "int_range w (PInt64 p) = Some (- 9223372036854775808, 9223372036854775807)"
| "int_range w (PUint p) = Some (0, 2 ^ w - 1)"
| "int_range w (PUint8 p) = Some (0, 255)"
| "int_range w (PUint16 p) = Some (0, 65535)"
| "int_range w (PUint32 p) = Some (0, 4294967295)"
| "int_range w (PUint64 p) = Some (0, 18446744073709551615)"
| "int_range w (PBool p) = None"
| "int_range w (PString p) = None"
| "int_range w Unsupported = None"

fun int_val :: "'w::len word val \<Rightarrow> int option" where
  "int_val (VInt x) = Some (sint x)"
| "int_val (VInt8 x) = Some (sint x)"
| "int_val (VInt16 x) = Some (sint x)"
| "int_val (VInt32 x) = Some (sint x)"
| "int_val (VInt64 x) = Some (sint x)"
| "int_val (VUint x) = Some (uint x)"
| "int_val (VUint8 x) = Some (uint x)"
| "int_val (VUint16 x) = Some (uint x)"
| "int_val (VUint32 x) = Some (uint x)"
| "int_val (VUint64 x) = Some (uint x)"
| "int_val (VBool b) = None"
| "int_val (VString s) = None"

fun val_of_int :: "dest \<Rightarrow> int \<Rightarrow> 'w::len word val" where
  "val_of_int (PInt p) v = VInt (word_of_int v)"
| "val_of_int (PInt8 p) v = VInt8 (word_of_int v)"
| "val_of_int (PInt16 p) v = VInt16 (word_of_int v)"
| "val_of_int (PInt32 p) v = VInt32 (word_of_int v)"
| "val_of_int (PInt64 p) v = VInt64 (word_of_int v)"
| "val_of_int (PUint p) v = VUint (word_of_int v)"
| "val_of_int (PUint8 p) v = VUint8 (word_of_int v)"
| "val_of_int (PUint16 p) v = VUint16 (word_of_int v)"
| "val_of_int (PUint32 p) v = VUint32 (word_of_int v)"
| "val_of_int (PUint64 p) v = VUint64 (word_of_int v)"
| "val_of_int (PBool p) v = VBool False"
| "val_of_int (PString p) v = VString []"
| "val_of_int Unsupported v = VBool False"

text \<open>
  The base-10 string form of an integer, as \<^verbatim>\<open>strconv.Itoa\<close> prints it: a minus sign for
  a negative number, then the digits without leading zeros.
\<close>

definition digit_char :: "nat \<Rightarrow> char" where
  "digit_char d = char_of (48 + d)"

fun digits :: "nat \<Rightarrow> string" where
  "digits n = (if n < 10 then [digit_char n] else digits (n div 10) @ [digit_char (n mod 10)])"

declare digits.simps [simp del]

definition itoa :: "int \<Rightarrow> string" where
  "itoa v = (if v < 0 then CHR ''-'' # digits (nat (- v)) else digits (nat v))"

text \<open>
  A decimal literal: an optional sign, then one digit or more (leading zeros allowed); and
  the integer it denotes.
\<close>

definition decimal :: "string \<Rightarrow> nat" where
  "decimal ds = foldl (\<lambda>n c. 10 * n + digit_val c) 0 ds"

definition is_literal :: "string \<Rightarrow> bool" where
  "is_literal s =
     (case s of
        [] \<Rightarrow> False
      | c # cs \<Rightarrow>
          if c = CHR ''+'' \<or> c = CHR ''-'' then cs \<noteq> [] \<and> list_all is_digit cs
          else list_all is_digit s)"

definition literal_value :: "string \<Rightarrow> int" where
  "literal_value s =
     (case s of
        [] \<Rightarrow> 0
      | c # cs \<Rightarrow>
          if c = CHR ''-'' then - int (decimal cs)
          else if c = CHR ''+'' then int (decimal cs)
          else int (decimal s))"






subsection \<open>Example data\<close>

text \<open>
  A store of zero values, and the specification's end-to-end example: the form
  \<^verbatim>\<open>{"age": ["17"], "active": ["on"], "name": ["a","b"]}\<close> and its three requests. The
  other constants are the inputs of the witnesses and counterexamples below.
\<close>

fun zero :: "dest \<Rightarrow> 'w::len word val" where
  "zero (PInt p) = VInt 0"
| "zero (PInt8 p) = VInt8 0"
| "zero (PInt16 p) = VInt16 0"
| "zero (PInt32 p) = VInt32 0"
| "zero (PInt64 p) = VInt64 0"
| "zero (PUint p) = VUint 0"
| "zero (PUint8 p) = VUint8 0"
| "zero (PUint16 p) = VUint16 0"
| "zero (PUint32 p) = VUint32 0"
| "zero (PUint64 p) = VUint64 0"
| "zero (PBool p) = VBool False"
| "zero (PString p) = VString []"
| "zero Unsupported = VBool False"

definition exampleRequest :: Request where
  "exampleRequest =
     \<lparr>Form = [''age'' \<mapsto> [''17''], ''active'' \<mapsto> [''on''], ''name'' \<mapsto> [''a'', ''b'']]\<rparr>"

definition ageField :: ScanField where
  "ageField = \<lparr>Name = ''age'', Value = PInt8 (Some 0)\<rparr>"

definition activeField :: ScanField where
  "activeField = \<lparr>Name = ''active'', Value = PBool (Some 1)\<rparr>"

definition nameField :: ScanField where
  "nameField = \<lparr>Name = ''name'', Value = PString (Some 2)\<rparr>"

definition boolRequest :: "string \<Rightarrow> Request" where
  "boolRequest s = \<lparr>Form = [''active'' \<mapsto> [s]]\<rparr>"

definition otherField :: ScanField where
  "otherField = \<lparr>Name = ''height'', Value = Unsupported\<rparr>"

definition otherPresentField :: ScanField where
  "otherPresentField = \<lparr>Name = ''age'', Value = Unsupported\<rparr>"

definition badAgeRequest :: Request where
  "badAgeRequest = \<lparr>Form = [''age'' \<mapsto> [''abc'']]\<rparr>"

definition tooBigRequest :: Request where
  "tooBigRequest = \<lparr>Form = [''age'' \<mapsto> [''300'']]\<rparr>"














section \<open>Properties\<close>

subsection \<open>Auxiliary facts\<close>


text \<open>
  A prefix of requests that succeeds hands its store and the next position to the rest.
\<close>

lemma scanLoop_append:
  "scanLoop r i pre h = (h1, Return None) \<Longrightarrow>
     scanLoop r i (pre @ fs) h = scanLoop r (i + length pre) fs h1"
proof (induction pre arbitrary: i h)
  case Nil
  then show ?case by simp
next
  case (Cons g pre)
  obtain h' res where sf: "scanField r i g h = (h', res)"
    by (cases "scanField r i g h")
  show ?case
  proof (cases res)
    case Panic
    with sf Cons.prems show ?thesis by simp
  next
    case (Return eo)
    show ?thesis
    proof (cases eo)
      case None
      with sf Return Cons.prems have "scanLoop r (Suc i) pre h' = (h1, Return None)"
        by simp
      from Cons.IH [OF this] sf Return None show ?thesis by simp
    next
      case (Some e)
      with sf Return Cons.prems show ?thesis by simp
    qed
  qed
qed

lemma ScanFormData_append:
  "ScanFormData r pre h = (h1, Return None) \<Longrightarrow>
     ScanFormData r (pre @ fs) h = scanLoop r (length pre) fs h1"
  using scanLoop_append [of r 0 pre h h1 fs] by (simp add: ScanFormData_def)

text \<open>
  Unfolding rules for the evaluation of the scan on concrete inputs.
\<close>

lemmas example_defs = exampleRequest_def ageField_def activeField_def nameField_def

lemmas eval_defs = ScanFormData_def scanField_def assignParsed_def assign_def store_def
  scanErrorNoSuchField_def scanErrorMultipleValues_def scanErrorIncompatibleValue_def
  scanErrorIncompatibleType_def errors_New_def scanBoolTrueString_def scanBoolFalseString_def
  ParseInt_def ParseInt8_def ParseInt16_def ParseInt32_def ParseInt64_def
  ParseUint_def ParseUint8_def ParseUint16_def ParseUint32_def ParseUint64_def
  parse_signed_def parse_unsigned_def parse_nat_def is_digit_def digit_val_def

lemma example_prefix:
  "ScanFormData (Some exampleRequest) [ageField, activeField] (zero :: 64 heap) =
     (zero(PInt8 (Some 0) := VInt8 17, PBool (Some 1) := VBool True), Return None)"
  by (simp add: eval_defs example_defs)

lemma bool_literals:
  "map (\<lambda>s. snd (ScanFormData (Some (boolRequest s)) [activeField] (zero :: 64 heap)))
     [''on'', ''off'', ''On'', ''ON'', ''1'', ''true'', '''']
   = [Return None, Return None,
      Return (Some (scanErrorIncompatibleValue 0 ''active''
        (Some (errorString ([CHR 0x27] @ ''On'' @ [CHR 0x27] @ '' is not a valid bool value.''))))),
      Return (Some (scanErrorIncompatibleValue 0 ''active''
        (Some (errorString ([CHR 0x27] @ ''ON'' @ [CHR 0x27] @ '' is not a valid bool value.''))))),
      Return (Some (scanErrorIncompatibleValue 0 ''active''
        (Some (errorString ([CHR 0x27] @ ''1'' @ [CHR 0x27] @ '' is not a valid bool value.''))))),
      Return (Some (scanErrorIncompatibleValue 0 ''active''
        (Some (errorString ([CHR 0x27] @ ''true'' @ [CHR 0x27] @ '' is not a valid bool value.''))))),
      Return (Some (scanErrorIncompatibleValue 0 ''active''
        (Some (errorString ([CHR 0x27] @ '''' @ [CHR 0x27] @ '' is not a valid bool value.'')))))]"
  by (simp add: eval_defs boolRequest_def activeField_def)

text \<open>
  The method \<^verbatim>\<open>Error\<close> returns for every error but those of kind IncompatibleValue with
  a sub-error.
\<close>

lemma Error_Some_cases:
  assumes "Error x = Some y"
  shows "\<not> (Type x = ScanErrorTypeIncompatibleValue \<and> SubError x \<noteq> None)"
proof (rule Error.raw_induct
    [where P = "\<lambda>x y. \<not> (Type x = ScanErrorTypeIncompatibleValue \<and> SubError x \<noteq> None)",
      OF _ assms])
  fix f :: "ScanError \<Rightarrow> string option" and e y
  assume IH: "\<And>x y. f x = Some y \<Longrightarrow>
      \<not> (Type x = ScanErrorTypeIncompatibleValue \<and> SubError x \<noteq> None)"
  assume eq: "(if Type e = ScanErrorTypeNoSuchField
       then Some (prefix e @ ''no field with such name.'')
     else if Type e = ScanErrorTypeMultipleValues
       then Some (prefix e @ ''there is more than 1 field with such name.'')
     else if Type e = ScanErrorTypeIncompatibleValue
       then (if SubError e \<noteq> None
               then Option.bind (f e) (\<lambda>s. Some (prefix e @ s))
             else Some (prefix e @ ''unable to parse string to required type.''))
     else if Type e = ScanErrorTypeIncompatibleType
       then Some (prefix e @ '' type of this field is imcompatible with this function type.'')
     else Some (prefix e @ ''unknown error'')) = Some y"
  show "\<not> (Type e = ScanErrorTypeIncompatibleValue \<and> SubError e \<noteq> None)"
  proof
    assume bad: "Type e = ScanErrorTypeIncompatibleValue \<and> SubError e \<noteq> None"
    with eq have "Option.bind (f e) (\<lambda>s. Some (prefix e @ s)) = Some y"
      by (simp add: ScanErrorTypeIncompatibleValue_def ScanErrorTypeNoSuchField_def
          ScanErrorTypeMultipleValues_def)
    then obtain z where "f e = Some z"
      by (auto simp: bind_eq_Some_conv)
    from IH [OF this] bad show False
      by simp
  qed
qed

lemma Error_None_iff:
  "Error e = None \<longleftrightarrow> Type e = ScanErrorTypeIncompatibleValue \<and> SubError e \<noteq> None"
proof
  assume "Error e = None"
  then show "Type e = ScanErrorTypeIncompatibleValue \<and> SubError e \<noteq> None"
    by (subst (asm) Error.simps) (simp split: if_splits)
next
  assume "Type e = ScanErrorTypeIncompatibleValue \<and> SubError e \<noteq> None"
  then show "Error e = None"
    using Error_Some_cases [of e] by (cases "Error e") auto
qed

text \<open>
  The parsers read back the decimal form of a number.
\<close>

lemma parse_digits_snoc:
  "parse_digits (xs @ [c]) n =
     (case parse_digits xs n of
        None \<Rightarrow> None
      | Some m \<Rightarrow> if is_digit c then Some (10 * m + digit_val c) else None)"
  by (induction xs arbitrary: n) simp_all

lemma digit_char_digit:
  assumes "d < 10"
  shows "is_digit (digit_char d)" and "digit_val (digit_char d) = d"
proof -
  from assms show "is_digit (digit_char d)"
    by (simp add: is_digit_def digit_char_def)
  from assms show "digit_val (digit_char d) = d"
    by (simp add: digit_val_def digit_char_def)
qed

lemma parse_digits_digits: "parse_digits (digits n) 0 = Some n"
proof (induction n rule: digits.induct)
  case (1 n)
  show ?case
  proof (cases "n < 10")
    case True
    then show ?thesis
      by (subst digits.simps) (simp add: digit_char_digit)
  next
    case False
    with 1 have "parse_digits (digits (n div 10)) 0 = Some (n div 10)"
      by simp
    with False show ?thesis
      by (subst digits.simps) (simp add: parse_digits_snoc digit_char_digit)
  qed
qed

lemma digits_not_Nil: "digits n \<noteq> []"
  by (subst digits.simps) simp

lemma digits_all_digit: "list_all is_digit (digits n)"
proof (induction n rule: digits.induct)
  case (1 n)
  then show ?case
    by (subst digits.simps) (simp add: digit_char_digit)
qed

lemma is_digit_not_sign: "is_digit c \<Longrightarrow> c \<noteq> CHR ''+'' \<and> c \<noteq> CHR ''-''"
  by (auto simp: is_digit_def)

lemma digits_Cons: "\<exists>c cs. digits n = c # cs \<and> c \<noteq> CHR ''+'' \<and> c \<noteq> CHR ''-''"
proof (cases "digits n")
  case Nil
  then show ?thesis by (simp add: digits_not_Nil)
next
  case (Cons c cs)
  with digits_all_digit [of n] have "is_digit c" by simp
  with Cons show ?thesis by (simp add: is_digit_not_sign)
qed

lemma parse_nat_digits: "parse_nat (digits n) = Some n"
  by (simp add: parse_nat_def digits_not_Nil parse_digits_digits)

lemma parse_unsigned_itoa:
  assumes "0 \<le> v" and "v < 2 ^ bits"
  shows "parse_unsigned bits (itoa v) = (v, None)"
  using assms by (simp add: parse_unsigned_def itoa_def parse_nat_digits)

lemma parse_signed_itoa:
  assumes "- (2 ^ (bits - 1)) \<le> v" and "v < 2 ^ (bits - 1)"
  shows "parse_signed bits (itoa v) = (v, None)"
proof (cases "v < 0")
  case True
  with assms show ?thesis
    by (simp add: parse_signed_def itoa_def parse_nat_digits)
next
  case False
  obtain c cs where d: "digits (nat v) = c # cs" "c \<noteq> CHR ''+''" "c \<noteq> CHR ''-''"
    using digits_Cons [of "nat v"] by blast
  have "parse_nat (c # cs) = Some (nat v)"
    using parse_nat_digits [of "nat v"] d(1) by simp
  with False assms d show ?thesis
    by (simp add: parse_signed_def itoa_def)
qed

lemma sint_word_of_int:
  "- (2 ^ (LENGTH('a::len) - 1)) \<le> v \<Longrightarrow> v < 2 ^ (LENGTH('a) - 1) \<Longrightarrow>
     sint (word_of_int v :: 'a word) = v"
  by (simp add: sint_sbintrunc' signed_take_bit_int_eq_self)

lemma uint_word_of_int:
  "0 \<le> v \<Longrightarrow> v < 2 ^ LENGTH('a::len) \<Longrightarrow> uint (word_of_int v :: 'a word) = v"
  by (simp add: uint_word_of_int_eq take_bit_int_eq_self)

lemma typeSwitch_itoa:
  fixes h :: "'w::len heap"
  assumes "int_range LENGTH('w) d = Some (lo, hi)" and "lo \<le> v" and "v \<le> hi"
    and "addr d \<noteq> None"
  shows "typeSwitch i name (itoa v) d h = (h(d := val_of_int d v), Return None)"
    and "int_val (val_of_int d v :: 'w word val) = Some v"
  using assms
  by (cases d; simp add: parse_signed_itoa parse_unsigned_itoa sint_word_of_int uint_word_of_int
      assignParsed_def store_def ParseInt_def ParseInt8_def ParseInt16_def ParseInt32_def
      ParseInt64_def ParseUint_def ParseUint8_def ParseUint16_def ParseUint32_def ParseUint64_def)+

lemma itoa_17: "itoa 17 = ''17''"
  by code_simp

text \<open>
  The parsers on decimal literals outside the range.
\<close>

lemma parse_digits_decimal:
  "list_all is_digit ds \<Longrightarrow>
     parse_digits ds n = Some (foldl (\<lambda>n c. 10 * n + digit_val c) n ds)"
  by (induction ds arbitrary: n) simp_all

lemma parse_nat_sign: "c = CHR ''+'' \<or> c = CHR ''-'' \<Longrightarrow> parse_nat (c # cs) = None"
  by (auto simp: parse_nat_def is_digit_def)

lemma parse_signed_out_of_range:
  assumes "is_literal s"
    and "literal_value s < - (2 ^ (bits - 1)) \<or> 2 ^ (bits - 1) \<le> literal_value s"
  shows "parse_signed bits s = (0, Some (ParseFailure ErrRange))"
proof (cases s)
  case Nil
  with assms(1) show ?thesis by (simp add: is_literal_def)
next
  case (Cons c cs)
  show ?thesis
  proof (cases "c = CHR ''+'' \<or> c = CHR ''-''")
    case True
    with Cons assms(1) have "parse_nat cs = Some (decimal cs)"
      by (simp add: is_literal_def parse_nat_def parse_digits_decimal decimal_def)
    with True Cons assms(2) show ?thesis
      by (auto simp: parse_signed_def literal_value_def)
  next
    case False
    with Cons assms(1) have "parse_nat s = Some (decimal s)"
      by (simp add: is_literal_def parse_nat_def parse_digits_decimal decimal_def)
    with False Cons assms(2) show ?thesis
      by (auto simp: parse_signed_def literal_value_def)
  qed
qed

lemma parse_unsigned_out_of_range:
  assumes "is_literal s"
    and "literal_value s < 0 \<or> 2 ^ bits \<le> literal_value s"
  shows "\<exists>pf. parse_unsigned bits s = (0, Some (ParseFailure pf))"
proof (cases s)
  case Nil
  with assms(1) show ?thesis by (simp add: is_literal_def)
next
  case (Cons c cs)
  show ?thesis
  proof (cases "c = CHR ''+'' \<or> c = CHR ''-''")
    case True
    with Cons show ?thesis
      by (simp add: parse_unsigned_def parse_nat_sign)
  next
    case False
    with Cons assms(1) have "parse_nat s = Some (decimal s)"
      by (simp add: is_literal_def parse_nat_def parse_digits_decimal decimal_def)
    with False Cons assms(2) show ?thesis
      by (auto simp: parse_unsigned_def literal_value_def)
  qed
qed

lemma typeSwitch_out_of_range:
  fixes h :: "'w::len heap"
  assumes "int_range LENGTH('w) d = Some (lo, hi)" and "is_literal s"
    and "literal_value s < lo \<or> hi < literal_value s" and "addr d \<noteq> None"
  shows "\<exists>h' pf. typeSwitch i name s d h =
     (h', Return (Some \<lparr>FieldNum = int i, FieldName = name,
        Type = ScanErrorTypeIncompatibleValue, SubError = Some (ParseFailure pf)\<rparr>))"
proof (cases d)
  case (PInt p)
  with assms parse_signed_out_of_range [of s "LENGTH('w)"] show ?thesis
    by (auto simp: ParseInt_def assignParsed_def store_def scanErrorIncompatibleValue_def)
next
  case (PInt8 p)
  with assms parse_signed_out_of_range [of s 8] show ?thesis
    by (auto simp: ParseInt8_def assignParsed_def store_def scanErrorIncompatibleValue_def)
next
  case (PInt16 p)
  with assms parse_signed_out_of_range [of s 16] show ?thesis
    by (auto simp: ParseInt16_def assignParsed_def store_def scanErrorIncompatibleValue_def)
next
  case (PInt32 p)
  with assms parse_signed_out_of_range [of s 32] show ?thesis
    by (auto simp: ParseInt32_def assignParsed_def store_def scanErrorIncompatibleValue_def)
next
  case (PInt64 p)
  with assms parse_signed_out_of_range [of s 64] show ?thesis
    by (auto simp: ParseInt64_def assignParsed_def store_def scanErrorIncompatibleValue_def)
next
  case (PUint p)
  with assms parse_unsigned_out_of_range [of s "LENGTH('w)"] show ?thesis
    by (auto simp: ParseUint_def assignParsed_def store_def scanErrorIncompatibleValue_def)
next
  case (PUint8 p)
  with assms parse_unsigned_out_of_range [of s 8] show ?thesis
    by (auto simp: ParseUint8_def assignParsed_def store_def scanErrorIncompatibleValue_def)
next
  case (PUint16 p)
  with assms parse_unsigned_out_of_range [of s 16] show ?thesis
    by (auto simp: ParseUint16_def assignParsed_def store_def scanErrorIncompatibleValue_def)
next
  case (PUint32 p)
  with assms parse_unsigned_out_of_range [of s 32] show ?thesis
    by (auto simp: ParseUint32_def assignParsed_def store_def scanErrorIncompatibleValue_def)
next
  case (PUint64 p)
  with assms parse_unsigned_out_of_range [of s 64] show ?thesis
    by (auto simp: ParseUint64_def assignParsed_def store_def scanErrorIncompatibleValue_def)
qed (use assms in simp_all)



lemma scanField_cases:
  obtains (panic) "r = None" "scanField r i f h = (h, Panic)"
  | (absent) "scanField r i f h = (h, Return (Some (scanErrorNoSuchField (int i) (Name f))))"
  | (multiple) "scanField r i f h = (h, Return (Some (scanErrorMultipleValues (int i) (Name f))))"
  | (single) s where "scanField r i f h = typeSwitch i (Name f) s (Value f) h"
proof (cases r)
  case None
  then show ?thesis
    using panic by (simp add: scanField_def)
next
  case (Some req)
  show ?thesis
  proof (cases "Form req (Name f)")
    case None
    with Some show ?thesis
      using absent by (simp add: scanField_def)
  next
    case vs: (Some vs)
    show ?thesis
    proof (cases "length vs = 1")
      case True
      with Some vs show ?thesis
        using single [of "vs ! 0"] by (simp add: scanField_def)
    next
      case False
      with Some vs show ?thesis
        using multiple by (simp add: scanField_def)
    qed
  qed
qed


lemma assignParsed_cases:
  "assignParsed i name d v err h =
     (if addr d = None then (h, Panic)
      else if err \<noteq> None
        then (h(d := v), Return (Some (scanErrorIncompatibleValue (int i) name err)))
      else (h(d := v), Return None))"
  by (simp add: assignParsed_def store_def)

lemma assign_cases:
  "assign d v h = (if addr d = None then (h, Panic) else (h(d := v), Return None))"
  by (simp add: assign_def store_def)










text \<open>
  The kinds of the errors that the scan returns: a sub-error comes only with the kind
  IncompatibleValue, and the kind IncompatibleType is never returned.
\<close>

lemma typeSwitch_error_kind:
  assumes "typeSwitch i name s d h = (h', Return (Some e))"
  shows "Type e = ScanErrorTypeIncompatibleValue"
proof (cases d)
  case (PBool p)
  with assms show ?thesis
    by (auto simp: assign_cases scanErrorIncompatibleValue_def split: if_splits)
next
  case (PString p)
  with assms show ?thesis
    by (auto simp: assign_cases split: if_splits)
next
  case Unsupported
  with assms show ?thesis
    by (auto simp: scanErrorIncompatibleType_def)
qed (use assms in \<open>auto simp: assignParsed_cases scanErrorIncompatibleValue_def
      split: if_splits prod.splits\<close>)

lemma scanField_error_kind:
  assumes "scanField r i f h = (h', Return (Some e))"
  shows "(SubError e \<noteq> None \<longrightarrow> Type e = ScanErrorTypeIncompatibleValue) \<and>
    Type e \<noteq> ScanErrorTypeIncompatibleType"
proof (cases r i f h rule: scanField_cases)
  case (single s)
  with assms have "typeSwitch i (Name f) s (Value f) h = (h', Return (Some e))"
    by simp
  from typeSwitch_error_kind [OF this] show ?thesis
    by (simp add: ScanErrorTypeIncompatibleValue_def ScanErrorTypeIncompatibleType_def)
qed (use assms in \<open>auto simp: scanErrorNoSuchField_def scanErrorMultipleValues_def
      ScanErrorTypeNoSuchField_def ScanErrorTypeMultipleValues_def
      ScanErrorTypeIncompatibleType_def\<close>)

lemma scanLoop_error_kind:
  assumes "scanLoop r i fs h = (h', Return (Some e))"
  shows "(SubError e \<noteq> None \<longrightarrow> Type e = ScanErrorTypeIncompatibleValue) \<and>
    Type e \<noteq> ScanErrorTypeIncompatibleType"
  using assms
proof (induction fs arbitrary: i h)
  case Nil
  then show ?case by simp
next
  case (Cons g fs)
  obtain h1 res where sf: "scanField r i g h = (h1, res)"
    by (cases "scanField r i g h")
  show ?case
  proof (cases res)
    case Panic
    with sf Cons.prems show ?thesis by simp
  next
    case (Return eo)
    show ?thesis
    proof (cases eo)
      case None
      with sf Return Cons.prems have "scanLoop r (Suc i) fs h1 = (h', Return (Some e))"
        by simp
      from Cons.IH [OF this] show ?thesis .
    next
      case (Some e1)
      with sf Return Cons.prems have "scanField r i g h = (h', Return (Some e))"
        by simp
      from scanField_error_kind [OF this] show ?thesis .
    qed
  qed
qed

lemma returned_error_kinds:
  assumes "ScanFormData r fs h = (h', Return (Some e))"
  shows "(SubError e \<noteq> None \<longrightarrow> Type e = ScanErrorTypeIncompatibleValue) \<and>
    Type e \<noteq> ScanErrorTypeIncompatibleType"
  using assms scanLoop_error_kind [of r 0 fs h h' e] by (simp add: ScanFormData_def)










text \<open>
  The assignment of an integer destination takes place whatever the parser returns beside
  its error.
\<close>

lemma assignParsed_error_writes:
  "err \<noteq> None \<Longrightarrow> addr d \<noteq> None \<Longrightarrow> fst (assignParsed i name d v err h) d = v"
  by (auto simp: assignParsed_cases)









subsection \<open>The claims\<close>




text \<open>
  C2: a request whose destination has an unsupported type and whose name has exactly one
  value in the form. The scan returns the error built by \<^verbatim>\<open>scanErrorIncompatibleType\<close>:
  its sub-error is absent, and its kind is \<^verbatim>\<open>ScanErrorTypeIncompatibleValue\<close>, which
  differs from \<^verbatim>\<open>ScanErrorTypeIncompatibleType\<close>.
\<close>

theorem unsupported_type_kind:
  "ScanFormData (Some exampleRequest) [otherPresentField] (zero :: 64 heap) =
     (zero, Return (Some \<lparr>FieldNum = 0, FieldName = ''age'',
        Type = ScanErrorTypeIncompatibleValue, SubError = None\<rparr>)) \<and>
   ScanErrorTypeIncompatibleValue \<noteq> ScanErrorTypeIncompatibleType"
  by (simp add: eval_defs example_defs otherPresentField_def
      ScanErrorTypeIncompatibleType_def ScanErrorTypeIncompatibleValue_def)

text \<open>
  C3: unsupported destination types, as amended. For a request at position \<open>i\<close> (the
  requests before it having succeeded) whose destination has an unsupported type, the
  lookup comes first: an absent name gives NoSuchField, a number of values other than one
  gives MultipleValues, and only a name with exactly one value gives the error built by
  \<^verbatim>\<open>scanErrorIncompatibleType\<close>. The store is left as the requests before it made it.
\<close>

theorem unsupported_rule:
  assumes "ScanFormData (Some r) pre h = (h1, Return None)"
    and "Value f = Unsupported"
  shows "ScanFormData (Some r) (pre @ f # post) h =
     (case Form r (Name f) of
        None \<Rightarrow> (h1, Return (Some (scanErrorNoSuchField (int (length pre)) (Name f))))
      | Some vs \<Rightarrow>
          if length vs \<noteq> 1
          then (h1, Return (Some (scanErrorMultipleValues (int (length pre)) (Name f))))
          else (h1, Return (Some (scanErrorIncompatibleType (int (length pre)) (Name f)))))"
  unfolding ScanFormData_append [OF assms(1)] using assms(2)
  by (simp add: scanField_def split: option.splits)

theorem unsupported_rule_witness:
  "ScanFormData (Some exampleRequest) [ageField, activeField] (zero :: 64 heap) =
     (zero(PInt8 (Some 0) := VInt8 17, PBool (Some 1) := VBool True), Return None) \<and>
   Value otherPresentField = Unsupported \<and>
   ScanFormData (Some exampleRequest) ([ageField, activeField] @ otherPresentField # [nameField])
       (zero :: 64 heap) =
     (zero(PInt8 (Some 0) := VInt8 17, PBool (Some 1) := VBool True),
      Return (Some (scanErrorIncompatibleType 2 ''age'')))"
proof -
  have u: "Value otherPresentField = Unsupported"
    by (simp add: otherPresentField_def)
  from unsupported_rule [OF example_prefix u, of "[nameField]"] example_prefix u show ?thesis
    by (simp add: exampleRequest_def otherPresentField_def)
qed

text \<open>
  The claim as stated fails: for an unsupported destination whose name \<^verbatim>\<open>height\<close> is
  absent from the form, the error is NoSuchField, not the error of an unsupported type
  that the same destination gets under the present name \<^verbatim>\<open>age\<close>.
\<close>

theorem unsupported_lookup_counterexample:
  "Value otherField = Unsupported \<and>
   ScanFormData (Some exampleRequest) [otherField] (zero :: 64 heap) =
     (zero, Return (Some \<lparr>FieldNum = 0, FieldName = ''height'', Type = ScanErrorTypeNoSuchField,
        SubError = None\<rparr>)) \<and>
   ScanFormData (Some exampleRequest) [otherPresentField] (zero :: 64 heap) =
     (zero, Return (Some (scanErrorIncompatibleType 0 ''age''))) \<and>
   Type (scanErrorIncompatibleType 0 ''age'') \<noteq> ScanErrorTypeNoSuchField"
  by (simp add: eval_defs example_defs otherField_def otherPresentField_def
      ScanErrorTypeNoSuchField_def ScanErrorTypeIncompatibleValue_def)

text \<open>
  C4: a request at position \<open>i\<close> (the requests before it having succeeded) with a
  supported destination type. If its name is absent from the form, the scan fails with
  NoSuchField, position \<open>i\<close> and that name; if the name is present with a number of
  values other than one, it fails with MultipleValues, position \<open>i\<close> and that name; if
  it is present with exactly one value, the type switch runs on that single string, and
  the scan goes on with the next request when it succeeds.
\<close>

theorem lookup_rule:
  assumes "ScanFormData (Some r) pre h = (h1, Return None)"
    and "Value f \<noteq> Unsupported"
  shows "ScanFormData (Some r) (pre @ f # post) h =
     (case Form r (Name f) of
        None \<Rightarrow>
          (h1, Return (Some \<lparr>FieldNum = int (length pre), FieldName = Name f,
                  Type = ScanErrorTypeNoSuchField, SubError = None\<rparr>))
      | Some vs \<Rightarrow>
          if length vs \<noteq> 1
          then (h1, Return (Some \<lparr>FieldNum = int (length pre), FieldName = Name f,
                  Type = ScanErrorTypeMultipleValues, SubError = None\<rparr>))
          else (case typeSwitch (length pre) (Name f) (hd vs) (Value f) h1 of
                  (h2, Return None) \<Rightarrow> scanLoop (Some r) (Suc (length pre)) post h2
                | (h2, res) \<Rightarrow> (h2, res)))"
proof (cases "Form r (Name f)")
  case None
  then show ?thesis
    unfolding ScanFormData_append [OF assms(1)]
    by (simp add: scanField_def scanErrorNoSuchField_def)
next
  case (Some vs)
  show ?thesis
  proof (cases "length vs = 1")
    case True
    then have "vs ! 0 = hd vs"
      by (cases vs) simp_all
    with Some True show ?thesis
      unfolding ScanFormData_append [OF assms(1)]
      by (simp add: scanField_def)
  next
    case False
    with Some show ?thesis
      unfolding ScanFormData_append [OF assms(1)]
      by (simp add: scanField_def scanErrorMultipleValues_def)
  qed
qed

theorem lookup_rule_witness:
  "ScanFormData (Some exampleRequest) [ageField, activeField] (zero :: 64 heap) =
     (zero(PInt8 (Some 0) := VInt8 17, PBool (Some 1) := VBool True), Return None) \<and>
   Value nameField \<noteq> Unsupported \<and>
   ScanFormData (Some exampleRequest) ([ageField, activeField] @ nameField # []) (zero :: 64 heap) =
     (zero(PInt8 (Some 0) := VInt8 17, PBool (Some 1) := VBool True),
      Return (Some \<lparr>FieldNum = 2, FieldName = ''name'', Type = ScanErrorTypeMultipleValues,
        SubError = None\<rparr>))"
proof -
  have sup: "Value nameField \<noteq> Unsupported"
    by (simp add: nameField_def)
  from lookup_rule [OF example_prefix sup, of "[]"] example_prefix sup show ?thesis
    by (simp add: example_defs)
qed

text \<open>
  C5: a request at position \<open>i\<close> with a boolean destination (a pointer to a variable)
  whose name has exactly one value \<open>s\<close>. If \<open>s\<close> is \<^verbatim>\<open>on\<close>, true is stored and the scan
  goes on; if \<open>s\<close> is \<^verbatim>\<open>off\<close>, false is stored and the scan goes on; for every other
  string the scan fails with IncompatibleValue, position \<open>i\<close>, the name, and the
  sub-error whose message quotes \<open>s\<close>, and the store is not written. The comparison is
  equality of strings: no case folding, no trimming.
\<close>

theorem bool_rule:
  assumes "ScanFormData (Some r) pre h = (h1, Return None)"
    and "Form r (Name f) = Some [s]"
    and "Value f = PBool (Some a)"
  shows "ScanFormData (Some r) (pre @ f # post) h =
     (if s = ''on''
        then scanLoop (Some r) (Suc (length pre)) post (h1(PBool (Some a) := VBool True))
      else if s = ''off''
        then scanLoop (Some r) (Suc (length pre)) post (h1(PBool (Some a) := VBool False))
      else (h1, Return (Some \<lparr>FieldNum = int (length pre), FieldName = Name f,
              Type = ScanErrorTypeIncompatibleValue,
              SubError = Some (errorString
                ([CHR 0x27] @ s @ [CHR 0x27] @ '' is not a valid bool value.''))\<rparr>)))"
  unfolding ScanFormData_append [OF assms(1)] using assms(2,3)
  by (simp add: scanField_def assign_def store_def scanBoolTrueString_def
      scanBoolFalseString_def scanErrorIncompatibleValue_def errors_New_def)

theorem bool_rule_witness:
  "ScanFormData (Some (boolRequest ''on'')) [] (zero :: 64 heap) = (zero, Return None) \<and>
   Form (boolRequest ''on'') (Name activeField) = Some [''on''] \<and>
   Value activeField = PBool (Some 1) \<and>
   ScanFormData (Some (boolRequest ''on'')) ([] @ activeField # []) (zero :: 64 heap) =
     (zero(PBool (Some 1) := VBool True), Return None)"
proof -
  have a: "ScanFormData (Some (boolRequest ''on'')) [] (zero :: 64 heap) = (zero, Return None)"
    by (simp add: ScanFormData_def)
  have b: "Form (boolRequest ''on'') (Name activeField) = Some [''on'']"
    by (simp add: boolRequest_def activeField_def)
  have c: "Value activeField = PBool (Some 1)"
    by (simp add: activeField_def)
  from bool_rule [OF a b c, of "[]"] a b c show ?thesis
    by simp
qed

text \<open>
  C6: integer round trip. For a request at position \<open>i\<close> whose destination is a pointer to
  an integer variable of any of the ten types, and an integer \<open>v\<close> in the range of that
  type: when the single form value is the base-10 string form of \<open>v\<close>, the scan stores the
  value of the destination's type made of \<open>v\<close>, goes on with the next request, and the
  stored value denotes exactly \<open>v\<close>.
\<close>

theorem integer_round_trip:
  fixes h :: "'w::len heap"
  assumes "ScanFormData (Some r) pre h = (h1, Return None)"
    and "Form r (Name f) = Some [itoa v]"
    and "int_range LENGTH('w) (Value f) = Some (lo, hi)" and "lo \<le> v" and "v \<le> hi"
    and "addr (Value f) \<noteq> None"
  shows "ScanFormData (Some r) (pre @ f # post) h =
       scanLoop (Some r) (Suc (length pre)) post (h1(Value f := val_of_int (Value f) v)) \<and>
     int_val (val_of_int (Value f) v :: 'w word val) = Some v"
  unfolding ScanFormData_append [OF assms(1)]
  using assms(2) typeSwitch_itoa [OF assms(3-6)]
  by (simp add: scanField_def)

theorem integer_round_trip_witness:
  "ScanFormData (Some exampleRequest) [] (zero :: 64 heap) = (zero, Return None) \<and>
   Form exampleRequest (Name ageField) = Some [itoa 17] \<and>
   int_range LENGTH(64) (Value ageField) = Some (- 128, 127) \<and>
   (- 128 :: int) \<le> 17 \<and> (17 :: int) \<le> 127 \<and>
   addr (Value ageField) \<noteq> None \<and>
   ScanFormData (Some exampleRequest) ([] @ ageField # [activeField]) (zero :: 64 heap) =
     (zero(PInt8 (Some 0) := VInt8 17, PBool (Some 1) := VBool True), Return None) \<and>
   int_val (VInt8 17 :: 64 word val) = Some 17"
proof -
  have a: "ScanFormData (Some exampleRequest) [] (zero :: 64 heap) = (zero, Return None)"
    by (simp add: ScanFormData_def)
  have b: "Form exampleRequest (Name ageField) = Some [itoa 17]"
    by (simp add: itoa_17 example_defs)
  have c: "int_range LENGTH(64) (Value ageField) = Some (- 128, 127)"
    by (simp add: ageField_def)
  have d: "addr (Value ageField) \<noteq> None"
    by (simp add: ageField_def)
  have e: "scanLoop (Some exampleRequest) (Suc 0) [activeField]
      ((zero :: 64 heap)(PInt8 (Some 0) := VInt8 17)) =
      (zero(PInt8 (Some 0) := VInt8 17, PBool (Some 1) := VBool True), Return None)"
    by (simp add: eval_defs example_defs)
  from integer_round_trip [OF a b c _ _ d, of "[activeField]"] a b c d e show ?thesis
    by (simp add: ageField_def)
qed

text \<open>
  C7: integer overflow. For a request at position \<open>i\<close> whose destination is a pointer to
  an integer variable of any of the ten types: when the single form value is a decimal
  literal whose value lies outside the range of that type, the scan fails with
  IncompatibleValue, position \<open>i\<close> and the name, and the sub-error is the failure of the
  parser.
\<close>

theorem integer_overflow:
  fixes h :: "'w::len heap"
  assumes "ScanFormData (Some r) pre h = (h1, Return None)"
    and "Form r (Name f) = Some [s]"
    and "int_range LENGTH('w) (Value f) = Some (lo, hi)"
    and "is_literal s" and "literal_value s < lo \<or> hi < literal_value s"
    and "addr (Value f) \<noteq> None"
  shows "\<exists>h' pf. ScanFormData (Some r) (pre @ f # post) h =
     (h', Return (Some \<lparr>FieldNum = int (length pre), FieldName = Name f,
        Type = ScanErrorTypeIncompatibleValue, SubError = Some (ParseFailure pf)\<rparr>))"
proof -
  from typeSwitch_out_of_range [OF assms(3-6), of "length pre" "Name f" h1]
  obtain h' pf where "typeSwitch (length pre) (Name f) s (Value f) h1 =
     (h', Return (Some \<lparr>FieldNum = int (length pre), FieldName = Name f,
        Type = ScanErrorTypeIncompatibleValue, SubError = Some (ParseFailure pf)\<rparr>))"
    by blast
  with assms(2) show ?thesis
    unfolding ScanFormData_append [OF assms(1)] by (simp add: scanField_def)
qed

theorem integer_overflow_witness:
  "ScanFormData (Some tooBigRequest) [] (zero :: 64 heap) = (zero, Return None) \<and>
   Form tooBigRequest (Name ageField) = Some [''300''] \<and>
   int_range LENGTH(64) (Value ageField) = Some (- 128, 127) \<and>
   is_literal ''300'' \<and> literal_value ''300'' = 300 \<and> (127 :: int) < 300 \<and>
   addr (Value ageField) \<noteq> None \<and>
   (\<exists>h' pf. ScanFormData (Some tooBigRequest) ([] @ ageField # [activeField]) (zero :: 64 heap) =
     (h', Return (Some \<lparr>FieldNum = int (length ([] :: ScanField list)), FieldName = Name ageField,
        Type = ScanErrorTypeIncompatibleValue, SubError = Some (ParseFailure pf)\<rparr>))) \<and>
   snd (ScanFormData (Some tooBigRequest) [ageField, activeField] (zero :: 64 heap)) =
     Return (Some \<lparr>FieldNum = 0, FieldName = ''age'',
        Type = ScanErrorTypeIncompatibleValue, SubError = Some (ParseFailure ErrRange)\<rparr>)"
proof -
  have a: "ScanFormData (Some tooBigRequest) [] (zero :: 64 heap) = (zero, Return None)"
    by (simp add: ScanFormData_def)
  have b: "Form tooBigRequest (Name ageField) = Some [''300'']"
    by (simp add: tooBigRequest_def ageField_def)
  have c: "int_range LENGTH(64) (Value ageField) = Some (- 128, 127)"
    by (simp add: ageField_def)
  have d: "is_literal ''300''"
    by (simp add: is_literal_def is_digit_def)
  have v: "literal_value ''300'' = 300"
    by (simp add: literal_value_def decimal_def digit_val_def)
  then have e: "literal_value ''300'' < - 128 \<or> 127 < literal_value ''300''"
    by simp
  have g: "addr (Value ageField) \<noteq> None"
    by (simp add: ageField_def)
  have k: "snd (ScanFormData (Some tooBigRequest) [ageField, activeField] (zero :: 64 heap)) =
     Return (Some \<lparr>FieldNum = 0, FieldName = ''age'',
        Type = ScanErrorTypeIncompatibleValue, SubError = Some (ParseFailure ErrRange)\<rparr>)"
    by (simp add: eval_defs example_defs tooBigRequest_def)
  from integer_overflow [OF a b c d e g, of "[activeField]"] a b c d v g k show ?thesis
    by simp
qed

text \<open>
  C8: the scan returns an error of kind IncompatibleValue that carries no sub-error. The
  first request succeeds; the second has an unsupported destination type and a name with
  exactly one value.
\<close>

theorem incompatible_value_without_sub_error:
  "ScanFormData (Some exampleRequest) [ageField, otherPresentField] (zero :: 64 heap) =
     (zero(PInt8 (Some 0) := VInt8 17),
      Return (Some \<lparr>FieldNum = 1, FieldName = ''age'',
        Type = ScanErrorTypeIncompatibleValue, SubError = None\<rparr>))"
  by (simp add: eval_defs example_defs otherPresentField_def)

text \<open>
  C9: the method \<^verbatim>\<open>Error\<close> never returns on an error of kind IncompatibleValue that
  carries a sub-error, such as the one the scan returns for the form value \<^verbatim>\<open>abc\<close> and
  an \<^verbatim>\<open>int8\<close> destination: it calls itself on the same error, and the sub-error's message
  is never rendered.
\<close>

theorem Error_never_returns:
  "ScanFormData (Some badAgeRequest) [ageField] (zero :: 64 heap) =
     (zero, Return (Some \<lparr>FieldNum = 0, FieldName = ''age'',
        Type = ScanErrorTypeIncompatibleValue, SubError = Some (ParseFailure ErrSyntax)\<rparr>)) \<and>
   Error \<lparr>FieldNum = 0, FieldName = ''age'', Type = ScanErrorTypeIncompatibleValue,
     SubError = Some (ParseFailure ErrSyntax)\<rparr> = None"
proof -
  have "zero(PInt8 (Some 0) := VInt8 0) = (zero :: 64 heap)"
    by (rule ext) simp
  then show ?thesis
    by (simp add: Error_None_iff eval_defs example_defs badAgeRequest_def)
qed

text \<open>
  C10: for an empty sequence of scan requests the scan returns nil, whatever the request
  is, and the store is unchanged: no destination is written.
\<close>

theorem ScanFormData_empty: "ScanFormData r [] h = (h, Return None)"
  by (simp add: ScanFormData_def)

end
